theory Spec2Isabelle
  imports Complex_Main "HOL-Library.Multiset" "HOL-Library.List_Lexorder"
begin

section \<open>Values of the request handlers\<close>

text \<open>
  A Python \<open>str\<close> is a sequence of Unicode code points. \<open>lit\<close> reads a literal of the
  source as such a sequence.
\<close>

type_synonym pystr = "nat list"

definition lit :: "string \<Rightarrow> pystr" where
  "lit cs = map of_char cs"

text \<open>
  \<open>str.strip()\<close> without argument removes leading and trailing white space, that is
  the code points for which \<open>str.isspace\<close> holds: U+0009..U+000D, U+001C..U+0020,
  U+0085, U+00A0, U+1680, U+2000..U+200A, U+2028, U+2029, U+202F, U+205F, U+3000.
\<close>

definition isspace :: "nat \<Rightarrow> bool" where
  "isspace c \<longleftrightarrow>
     (9 \<le> c \<and> c \<le> 13) \<or> (28 \<le> c \<and> c \<le> 32) \<or> c = 133 \<or> c = 160 \<or> c = 5760 \<or>
     (8192 \<le> c \<and> c \<le> 8202) \<or> c = 8232 \<or> c = 8233 \<or> c = 8239 \<or> c = 8287 \<or> c = 12288"

definition lstrip :: "pystr \<Rightarrow> pystr" where
  "lstrip s = dropWhile isspace s"

definition rstrip :: "pystr \<Rightarrow> pystr" where
  "rstrip s = rev (dropWhile isspace (rev s))"

definition strip :: "pystr \<Rightarrow> pystr" where
  "strip s = rstrip (lstrip s)"

text \<open>
  The value \<open>request.get_json\<close> parses: the handlers probe it by optional keys, so
  it is kept untyped. An object is its list of members in the order of the text; as in
  Python's parser, the last of several members with one key is the one the dict holds.
\<close>

datatype json =
    JNull
  | JBool bool
  | JInt int
  | JFloat real
  | JStr pystr
  | JArr "json list"
  | JObj "(pystr \<times> json) list"

text \<open>Python's truth value of a parsed value, as \<open>or\<close>, \<open>not\<close> and \<open>if\<close> test it.\<close>

fun truthy :: "json \<Rightarrow> bool" where
  "truthy JNull = False"
| "truthy (JBool b) = b"
| "truthy (JInt n) = (n \<noteq> 0)"
| "truthy (JFloat x) = (x \<noteq> 0)"
| "truthy (JStr s) = (s \<noteq> [])"
| "truthy (JArr xs) = (xs \<noteq> [])"
| "truthy (JObj kvs) = (kvs \<noteq> [])"

definition py_or :: "json \<Rightarrow> json \<Rightarrow> json" where
  "py_or a b = (if truthy a then a else b)"

text \<open>
  The body of a request as \<open>request.get_json(silent=True)\<close> sees it: \<open>NoJson\<close> is a
  missing body, a body that is not announced as JSON, or one that does not parse; all
  three give \<open>None\<close>.
\<close>

datatype body = NoJson | Json json

definition get_json :: "body \<Rightarrow> json" where
  "get_json b = (case b of NoJson \<Rightarrow> JNull | Json v \<Rightarrow> v)"

text \<open>\<open>payload = request.get_json(silent=True) or {}\<close>\<close>

definition payload_of :: "body \<Rightarrow> json" where
  "payload_of b = py_or (get_json b) (JObj [])"

text \<open>
  The exceptions a handler can raise; none is caught, so Flask answers 500.
  \<open>AttributeError\<close>: \<open>.get\<close> on a payload that is no dict, \<open>.strip\<close> on a value that
  is no \<open>str\<close>. \<open>StorageError\<close>: the store refuses a value.
\<close>

datatype exn = AttributeError | StorageError

text \<open>\<open>payload.get(key)\<close> and \<open>payload.get(key, default)\<close>, on the members of a dict.\<close>

definition as_dict :: "json \<Rightarrow> (pystr \<times> json) list option" where
  "as_dict v = (case v of JObj kvs \<Rightarrow> Some kvs | _ \<Rightarrow> None)"

definition dict_member :: "(pystr \<times> json) list \<Rightarrow> string \<Rightarrow> json option" where
  "dict_member kvs key = map_of (rev kvs) (lit key)"

definition dict_get_default :: "(pystr \<times> json) list \<Rightarrow> string \<Rightarrow> json \<Rightarrow> json" where
  "dict_get_default kvs key d = (case dict_member kvs key of None \<Rightarrow> d | Some v \<Rightarrow> v)"

definition dict_get :: "(pystr \<times> json) list \<Rightarrow> string \<Rightarrow> json" where
  "dict_get kvs key = dict_get_default kvs key JNull"

text \<open>\<open>v.strip()\<close> on a parsed value: only a \<open>str\<close> has the method.\<close>

definition strip_of :: "json \<Rightarrow> exn + pystr" where
  "strip_of v = (case v of JStr s \<Rightarrow> Inr (strip s) | _ \<Rightarrow> Inl AttributeError)"

section \<open>The store\<close>

text \<open>
  Modelled from the spec: the module \<open>models\<close> (\<open>db\<close>, \<open>Topic\<close>, \<open>Skill\<close>, \<open>to_dict\<close>) and
  the database behind it are not among the sources. The spec gives two tables,
  \<open>topics(id, name, description, parent_topic_id)\<close> and
  \<open>skills(id, name, topic_id, difficulty)\<close>, with identifiers generated by the store,
  a nullable optional string \<open>description\<close>, a nullable \<open>parent_topic_id\<close>, a required
  \<open>topic_id\<close>, references that are validated per request and not enforced by a
  persistent constraint, and storage failures that propagate as a server error.
  Identifiers are integers here, and the identifier in a path is the key the store
  looks up.
\<close>

record topic =
  t_id :: int
  t_name :: pystr
  t_description :: "pystr option"
  t_parent_topic_id :: "int option"

record skill =
  sk_id :: int
  sk_name :: pystr
  sk_topic_id :: int
  sk_difficulty :: pystr

record store =
  topics :: "topic list"
  skills :: "skill list"
  topic_seq :: int
  skill_seq :: int

text \<open>
  Modelled from the spec: a key is an integer identifier or null, a description a
  string or null. The handlers hand every other parsed value to the store untested,
  and neither the sources nor the spec say what the store makes of it: whether a
  lookup by it finds a row, which value a column keeps for it, or whether the store
  raises. These three readings are parameters of the model, and every theorem below
  holds for all of them.
\<close>

record coercion =
  sought_key :: "json \<Rightarrow> exn + int option"
  stored_key :: "json \<Rightarrow> exn + int option"
  stored_text :: "json \<Rightarrow> exn + pystr option"

text \<open>The key a lookup compares the identifiers with (\<open>None\<close>: it matches no row).\<close>

definition get_key :: "coercion \<Rightarrow> json \<Rightarrow> exn + int option" where
  "get_key c v = (case v of JNull \<Rightarrow> Inr None | JInt k \<Rightarrow> Inr (Some k) | _ \<Rightarrow> sought_key c v)"

text \<open>The value a key column and a string column keep (\<open>None\<close>: null).\<close>

definition as_key :: "coercion \<Rightarrow> json \<Rightarrow> exn + int option" where
  "as_key c v = (case v of JNull \<Rightarrow> Inr None | JInt k \<Rightarrow> Inr (Some k) | _ \<Rightarrow> stored_key c v)"

definition as_text :: "coercion \<Rightarrow> json \<Rightarrow> exn + pystr option" where
  "as_text c v = (case v of JNull \<Rightarrow> Inr None | JStr x \<Rightarrow> Inr (Some x) | _ \<Rightarrow> stored_text c v)"

text \<open>The value of a column as the handler reads it from a loaded row.\<close>

definition key_json :: "int option \<Rightarrow> json" where
  "key_json k = (case k of None \<Rightarrow> JNull | Some n \<Rightarrow> JInt n)"

definition text_json :: "pystr option \<Rightarrow> json" where
  "text_json x = (case x of None \<Rightarrow> JNull | Some s \<Rightarrow> JStr s)"

text \<open>
  Modelled from the spec: \<open>Topic.query.get\<close> and \<open>Skill.query.get\<close>, the lookup by
  primary key. The null key loads no row.
\<close>

definition topic_by_id :: "store \<Rightarrow> int \<Rightarrow> topic option" where
  "topic_by_id s k = find (\<lambda>t. t_id t = k) (topics s)"

definition skill_by_id :: "store \<Rightarrow> int \<Rightarrow> skill option" where
  "skill_by_id s k = find (\<lambda>x. sk_id x = k) (skills s)"

definition topic_get :: "coercion \<Rightarrow> store \<Rightarrow> json \<Rightarrow> exn + topic option" where
  "topic_get c s v =
     (case get_key c v of
        Inl e \<Rightarrow> Inl e
      | Inr None \<Rightarrow> Inr None
      | Inr (Some k) \<Rightarrow> Inr (topic_by_id s k))"

text \<open>
  Modelled from the spec: \<open>db.session.add(row); db.session.commit()\<close> inserts one row
  under a fresh identifier; assigning the attributes of a loaded row and committing
  rewrites the row of that identifier; \<open>db.session.delete(row)\<close> and the commit remove
  it. The \<open>topic_id\<close> of a skill is required, so a skill whose \<open>topic_id\<close> the store
  reads as null is refused.
\<close>

definition add_topic :: "coercion \<Rightarrow> pystr \<Rightarrow> json \<Rightarrow> json \<Rightarrow> store \<Rightarrow> exn + topic \<times> store" where
  "add_topic c name description parent_id s =
     (case as_text c description of
        Inl e \<Rightarrow> Inl e
      | Inr d \<Rightarrow>
        (case as_key c parent_id of
           Inl e \<Rightarrow> Inl e
         | Inr p \<Rightarrow>
           (let t = \<lparr>t_id = topic_seq s, t_name = name, t_description = d,
                     t_parent_topic_id = p\<rparr>
            in Inr (t, s\<lparr>topics := topics s @ [t], topic_seq := topic_seq s + 1\<rparr>))))"

definition set_topic :: "coercion \<Rightarrow> int \<Rightarrow> pystr \<Rightarrow> json \<Rightarrow> json \<Rightarrow> store \<Rightarrow> exn + topic \<times> store" where
  "set_topic c k name description parent_id s =
     (case as_text c description of
        Inl e \<Rightarrow> Inl e
      | Inr d \<Rightarrow>
        (case as_key c parent_id of
           Inl e \<Rightarrow> Inl e
         | Inr p \<Rightarrow>
           (let t = \<lparr>t_id = k, t_name = name, t_description = d, t_parent_topic_id = p\<rparr>
            in Inr (t, s\<lparr>topics := map (\<lambda>r. if t_id r = k then t else r) (topics s)\<rparr>))))"

definition remove_topic :: "int \<Rightarrow> store \<Rightarrow> store" where
  "remove_topic k s = s\<lparr>topics := filter (\<lambda>r. t_id r \<noteq> k) (topics s)\<rparr>"

definition add_skill :: "coercion \<Rightarrow> pystr \<Rightarrow> json \<Rightarrow> pystr \<Rightarrow> store \<Rightarrow> exn + skill \<times> store" where
  "add_skill c name topic_id difficulty s =
     (case as_key c topic_id of
        Inl e \<Rightarrow> Inl e
      | Inr None \<Rightarrow> Inl StorageError
      | Inr (Some tid) \<Rightarrow>
        (let x = \<lparr>sk_id = skill_seq s, sk_name = name, sk_topic_id = tid,
                  sk_difficulty = difficulty\<rparr>
         in Inr (x, s\<lparr>skills := skills s @ [x], skill_seq := skill_seq s + 1\<rparr>)))"

definition set_skill :: "coercion \<Rightarrow> int \<Rightarrow> pystr \<Rightarrow> json \<Rightarrow> pystr \<Rightarrow> store \<Rightarrow> exn + skill \<times> store" where
  "set_skill c k name topic_id difficulty s =
     (case as_key c topic_id of
        Inl e \<Rightarrow> Inl e
      | Inr None \<Rightarrow> Inl StorageError
      | Inr (Some tid) \<Rightarrow>
        (let x = \<lparr>sk_id = k, sk_name = name, sk_topic_id = tid, sk_difficulty = difficulty\<rparr>
         in Inr (x, s\<lparr>skills := map (\<lambda>r. if sk_id r = k then x else r) (skills s)\<rparr>)))"

definition remove_skill :: "int \<Rightarrow> store \<Rightarrow> store" where
  "remove_skill k s = s\<lparr>skills := filter (\<lambda>r. sk_id r \<noteq> k) (skills s)\<rparr>"

section \<open>Responses\<close>

text \<open>
  What a handler returns: a body and a status (200 where the source gives none), or
  the exception it raised. \<open>TopicOut\<close> and \<open>SkillOut\<close> stand for \<open>to_dict()\<close> of the row.
\<close>

datatype content =
    Error string
  | TopicOut topic
  | TopicsOut "topic list"
  | SkillOut skill
  | SkillsOut "skill list"
  | Text string

datatype outcome = Response content nat | Raised exn

definition status_of :: "outcome \<Rightarrow> nat" where
  "status_of r = (case r of Response c n \<Rightarrow> n | Raised e \<Rightarrow> 500)"

section \<open>Topic endpoints\<close>

text \<open>
  \<open>order_by(Topic.name.asc())\<close>: the order of names is the collation of the store, taken
  as a parameter \<open>collate\<close>, a key into a linear order.
\<close>

definition get_topics :: "(pystr \<Rightarrow> 'o::linorder) \<Rightarrow> store \<Rightarrow> outcome \<times> store" where
  "get_topics collate s =
     (let rows = sort_key (\<lambda>t. collate (t_name t)) (topics s)
      in (Response (TopicsOut rows) 200, s))"

definition get_topic_by_id :: "int \<Rightarrow> store \<Rightarrow> outcome \<times> store" where
  "get_topic_by_id k s =
     (case topic_by_id s k of
        None \<Rightarrow> (Response (Error ''Topic not found'') 404, s)
      | Some topic \<Rightarrow> (Response (TopicOut topic) 200, s))"

text \<open>
  The block shared by \<open>create_topic\<close> and \<open>update_topic\<close>:
  \<open>if parent_id: parent = Topic.query.get(parent_id); if not parent: ...\<close>.
  The result says whether the handler answers "parentTopicID not found".
\<close>

definition parent_missing :: "coercion \<Rightarrow> store \<Rightarrow> json \<Rightarrow> exn + bool" where
  "parent_missing c s parent_id =
     (if truthy parent_id
      then (case topic_get c s parent_id of
              Inl e \<Rightarrow> Inl e
            | Inr parent \<Rightarrow> Inr (parent = None))
      else Inr False)"

definition create_topic :: "coercion \<Rightarrow> body \<Rightarrow> store \<Rightarrow> outcome \<times> store" where
  "create_topic c b s =
     (case as_dict (payload_of b) of
        None \<Rightarrow> (Raised AttributeError, s)
      | Some payload \<Rightarrow>
        (case strip_of (py_or (dict_get payload ''name'') (JStr [])) of
           Inl e \<Rightarrow> (Raised e, s)
         | Inr name \<Rightarrow>
           (let description = dict_get payload ''description'';
                parent_id = dict_get payload ''parentTopicID''
            in if name = []
               then (Response (Error ''Field 'name' is required.'') 422, s)
               else (case parent_missing c s parent_id of
                       Inl e \<Rightarrow> (Raised e, s)
                     | Inr True \<Rightarrow> (Response (Error ''parentTopicID not found'') 422, s)
                     | Inr False \<Rightarrow>
                       (case add_topic c name description parent_id s of
                          Inl e \<Rightarrow> (Raised e, s)
                        | Inr (topic, s') \<Rightarrow> (Response (TopicOut topic) 201, s'))))))"

definition update_topic :: "coercion \<Rightarrow> int \<Rightarrow> body \<Rightarrow> store \<Rightarrow> outcome \<times> store" where
  "update_topic c k b s =
     (case topic_by_id s k of
        None \<Rightarrow> (Response (Error ''Topic not found'') 404, s)
      | Some topic \<Rightarrow>
        (case as_dict (payload_of b) of
           None \<Rightarrow> (Raised AttributeError, s)
         | Some payload \<Rightarrow>
           (case strip_of (py_or (dict_get payload ''name'') (JStr (t_name topic))) of
              Inl e \<Rightarrow> (Raised e, s)
            | Inr name \<Rightarrow>
              (let description =
                     dict_get_default payload ''description'' (text_json (t_description topic));
                   parent_id =
                     dict_get_default payload ''parentTopicID''
                       (key_json (t_parent_topic_id topic))
               in (case parent_missing c s parent_id of
                     Inl e \<Rightarrow> (Raised e, s)
                   | Inr True \<Rightarrow> (Response (Error ''parentTopicID not found'') 422, s)
                   | Inr False \<Rightarrow>
                     (case set_topic c k name description parent_id s of
                        Inl e \<Rightarrow> (Raised e, s)
                      | Inr (topic', s') \<Rightarrow> (Response (TopicOut topic') 200, s')))))))"

definition delete_topic :: "int \<Rightarrow> store \<Rightarrow> outcome \<times> store" where
  "delete_topic k s =
     (case topic_by_id s k of
        None \<Rightarrow> (Response (Error ''Topic not found'') 404, s)
      | Some topic \<Rightarrow>
        (let has_skills = list_ex (\<lambda>x. sk_topic_id x = k) (skills s);
             has_topics = list_ex (\<lambda>t. t_parent_topic_id t = Some k) (topics s)
         in if has_skills
            then (Response
                    (Error ''The topic has dependent skills, cannot delete the topic'') 409, s)
            else if has_topics
            then (Response
                    (Error ''The topic has dependent topics, cannot delete the topic'') 409, s)
            else (Response (Text []) 204, remove_topic k s)))"

section \<open>Skill endpoints\<close>

definition get_skills :: "(pystr \<Rightarrow> 'o::linorder) \<Rightarrow> store \<Rightarrow> outcome \<times> store" where
  "get_skills collate s =
     (let rows = sort_key (\<lambda>x. collate (sk_name x)) (skills s)
      in (Response (SkillsOut rows) 200, s))"

definition get_skill_by_id :: "int \<Rightarrow> store \<Rightarrow> outcome \<times> store" where
  "get_skill_by_id k s =
     (case skill_by_id s k of
        None \<Rightarrow> (Response (Error ''Skill not found'') 404, s)
      | Some skill \<Rightarrow> (Response (SkillOut skill) 200, s))"

definition create_skill :: "coercion \<Rightarrow> body \<Rightarrow> store \<Rightarrow> outcome \<times> store" where
  "create_skill c b s =
     (case as_dict (payload_of b) of
        None \<Rightarrow> (Raised AttributeError, s)
      | Some payload \<Rightarrow>
        (case strip_of (py_or (dict_get payload ''name'') (JStr [])) of
           Inl e \<Rightarrow> (Raised e, s)
         | Inr name \<Rightarrow>
           (let topic_id = dict_get payload ''topicID''
            in (case strip_of (py_or (dict_get payload ''difficulty'') (JStr (lit ''unknown''))) of
                  Inl e \<Rightarrow> (Raised e, s)
                | Inr difficulty \<Rightarrow>
                  if name = []
                  then (Response (Error ''Field 'name' is required.'') 422, s)
                  else if \<not> truthy topic_id
                  then (Response (Error ''Field 'topicID' is required.'') 422, s)
                  else (case topic_get c s topic_id of
                          Inl e \<Rightarrow> (Raised e, s)
                        | Inr None \<Rightarrow> (Response (Error ''topicID not found'') 422, s)
                        | Inr (Some topic) \<Rightarrow>
                          (case add_skill c name topic_id difficulty s of
                             Inl e \<Rightarrow> (Raised e, s)
                           | Inr (skill, s') \<Rightarrow> (Response (SkillOut skill) 201, s')))))))"

definition update_skill :: "coercion \<Rightarrow> int \<Rightarrow> body \<Rightarrow> store \<Rightarrow> outcome \<times> store" where
  "update_skill c k b s =
     (case skill_by_id s k of
        None \<Rightarrow> (Response (Error ''Skill not found'') 404, s)
      | Some skill \<Rightarrow>
        (case as_dict (payload_of b) of
           None \<Rightarrow> (Raised AttributeError, s)
         | Some payload \<Rightarrow>
           (case strip_of (py_or (dict_get payload ''name'') (JStr (sk_name skill))) of
              Inl e \<Rightarrow> (Raised e, s)
            | Inr name \<Rightarrow>
              (let topic_id = dict_get_default payload ''topicID'' (JInt (sk_topic_id skill))
               in (case strip_of
                          (py_or (dict_get payload ''difficulty'') (JStr (sk_difficulty skill))) of
                     Inl e \<Rightarrow> (Raised e, s)
                   | Inr difficulty \<Rightarrow>
                     (case topic_get c s topic_id of
                        Inl e \<Rightarrow> (Raised e, s)
                      | Inr None \<Rightarrow> (Response (Error ''topicID not found'') 422, s)
                      | Inr (Some topic) \<Rightarrow>
                        (case set_skill c k name topic_id difficulty s of
                           Inl e \<Rightarrow> (Raised e, s)
                         | Inr (skill', s') \<Rightarrow> (Response (SkillOut skill') 200, s'))))))))"

definition delete_skill :: "int \<Rightarrow> store \<Rightarrow> outcome \<times> store" where
  "delete_skill k s =
     (case skill_by_id s k of
        None \<Rightarrow> (Response (Error ''Skill not found'') 404, s)
      | Some skill \<Rightarrow> (Response (Text []) 204, remove_skill k s))"

section \<open>The routes\<close>

datatype request =
    GET_topics
  | GET_topic int
  | POST_topics body
  | PUT_topic int body
  | DELETE_topic int
  | GET_skills
  | GET_skill int
  | POST_skills body
  | PUT_skill int body
  | DELETE_skill int

fun handle :: "coercion \<Rightarrow> (pystr \<Rightarrow> 'o::linorder) \<Rightarrow> request \<Rightarrow> store \<Rightarrow> outcome \<times> store" where
  "handle c collate GET_topics s = get_topics collate s"
| "handle c collate (GET_topic k) s = get_topic_by_id k s"
| "handle c collate (POST_topics b) s = create_topic c b s"
| "handle c collate (PUT_topic k b) s = update_topic c k b s"
| "handle c collate (DELETE_topic k) s = delete_topic k s"
| "handle c collate GET_skills s = get_skills collate s"
| "handle c collate (GET_skill k) s = get_skill_by_id k s"
| "handle c collate (POST_skills b) s = create_skill c b s"
| "handle c collate (PUT_skill k b) s = update_skill c k b s"
| "handle c collate (DELETE_skill k) s = delete_skill k s"

section \<open>Writes, members that can be trimmed, and states for the examples\<close>

text \<open>
  \<open>one_write s s'\<close>: the store \<open>s'\<close> is \<open>s\<close> after one row of one table was inserted
  under the next identifier, rewritten, or removed.
\<close>

inductive one_write :: "store \<Rightarrow> store \<Rightarrow> bool" where
  topic_inserted:
    "t_id t = topic_seq s \<Longrightarrow>
     one_write s (s\<lparr>topics := topics s @ [t], topic_seq := topic_seq s + 1\<rparr>)"
| topic_updated:
    "k \<in> t_id ` set (topics s) \<Longrightarrow> t_id t = k \<Longrightarrow>
     one_write s (s\<lparr>topics := map (\<lambda>r. if t_id r = k then t else r) (topics s)\<rparr>)"
| topic_deleted:
    "k \<in> t_id ` set (topics s) \<Longrightarrow>
     one_write s (s\<lparr>topics := filter (\<lambda>r. t_id r \<noteq> k) (topics s)\<rparr>)"
| skill_inserted:
    "sk_id x = skill_seq s \<Longrightarrow>
     one_write s (s\<lparr>skills := skills s @ [x], skill_seq := skill_seq s + 1\<rparr>)"
| skill_updated:
    "k \<in> sk_id ` set (skills s) \<Longrightarrow> sk_id x = k \<Longrightarrow>
     one_write s (s\<lparr>skills := map (\<lambda>r. if sk_id r = k then x else r) (skills s)\<rparr>)"
| skill_deleted:
    "k \<in> sk_id ` set (skills s) \<Longrightarrow>
     one_write s (s\<lparr>skills := filter (\<lambda>r. sk_id r \<noteq> k) (skills s)\<rparr>)"

text \<open>The routes whose method is POST, PUT or DELETE.\<close>

fun writes :: "request \<Rightarrow> bool" where
  "writes (POST_topics b) = True"
| "writes (PUT_topic k b) = True"
| "writes (DELETE_topic k) = True"
| "writes (POST_skills b) = True"
| "writes (PUT_skill k b) = True"
| "writes (DELETE_skill k) = True"
| "writes r = False"

definition succeeded :: "outcome \<Rightarrow> bool" where
  "succeeded r \<longleftrightarrow> status_of r \<in> {200, 201, 204}"

text \<open>
  A member on which \<open>(member or default).strip()\<close> does not raise, the default being a
  string: a string, or a value that Python takes as false (null, and so an absent
  member read through \<open>dict_get\<close>, and \<open>0\<close>, \<open>false\<close>, \<open>[]\<close>, \<open>{}\<close>).
\<close>

definition falsy_or_text :: "json \<Rightarrow> bool" where
  "falsy_or_text v = (case v of JStr x \<Rightarrow> True | _ \<Rightarrow> \<not> truthy v)"

text \<open>
  The reading of the examples: a store that raises on every value that is not an
  integer, a string or null. The examples hold no such value, so each of them is the
  same under every other reading.
\<close>

definition strict :: coercion where
  "strict = \<lparr>sought_key = (\<lambda>v. Inl StorageError), stored_key = (\<lambda>v. Inl StorageError),
             stored_text = (\<lambda>v. Inl StorageError)\<rparr>"

text \<open>
  The empty store, and a store with the topic 1, its child topic 2, and the skill 1 of
  topic 1; the name of topic 2 and of the skill are stored with white space around.
\<close>

definition empty_store :: store where
  "empty_store = \<lparr>topics = [], skills = [], topic_seq = 1, skill_seq = 1\<rparr>"

definition topic1 :: topic where
  "topic1 = \<lparr>t_id = 1, t_name = [65], t_description = None, t_parent_topic_id = None\<rparr>"

definition topic2 :: topic where
  "topic2 = \<lparr>t_id = 2, t_name = [32, 66, 32], t_description = None,
             t_parent_topic_id = Some 1\<rparr>"

definition skill1 :: skill where
  "skill1 = \<lparr>sk_id = 1, sk_name = [32, 83], sk_topic_id = 1, sk_difficulty = [104]\<rparr>"

definition small_store :: store where
  "small_store = \<lparr>topics = [topic1, topic2], skills = [skill1], topic_seq = 3, skill_seq = 2\<rparr>"

section \<open>Lookups and writes of the store\<close>

lemma topic_by_id_None: "topic_by_id s k = None \<longleftrightarrow> k \<notin> t_id ` set (topics s)"
  by (auto simp: topic_by_id_def find_None_iff)

lemma skill_by_id_None: "skill_by_id s k = None \<longleftrightarrow> k \<notin> sk_id ` set (skills s)"
  by (auto simp: skill_by_id_def find_None_iff)

lemma topic_by_id_Some: "topic_by_id s k = Some t \<Longrightarrow> k \<in> t_id ` set (topics s)"
  by (auto simp: topic_by_id_def find_Some_iff)

lemma skill_by_id_Some: "skill_by_id s k = Some x \<Longrightarrow> k \<in> sk_id ` set (skills s)"
  by (auto simp: skill_by_id_def find_Some_iff)

lemma topic_by_id_remove: "topic_by_id (remove_topic k s) k = None"
  by (auto simp: topic_by_id_None remove_topic_def)

lemma add_topic_write: "add_topic c n d p s = Inr (t, s') \<Longrightarrow> one_write s s'"
  by (auto simp: add_topic_def Let_def split: sum.splits intro: one_write.intros)

lemma set_topic_write:
  "set_topic c k n d p s = Inr (t, s') \<Longrightarrow> k \<in> t_id ` set (topics s) \<Longrightarrow> one_write s s'"
  by (auto simp: set_topic_def Let_def split: sum.splits intro!: one_write.topic_updated)

lemma add_skill_write: "add_skill c n tid d s = Inr (x, s') \<Longrightarrow> one_write s s'"
  by (auto simp: add_skill_def Let_def split: sum.splits option.splits intro: one_write.intros)

lemma set_skill_write:
  "set_skill c k n tid d s = Inr (x, s') \<Longrightarrow> k \<in> sk_id ` set (skills s) \<Longrightarrow> one_write s s'"
  by (auto simp: set_skill_def Let_def split: sum.splits option.splits
      intro!: one_write.skill_updated)

lemma find_map_update:
  "k \<in> f ` set xs \<Longrightarrow> f y = k \<Longrightarrow>
   find (\<lambda>r. f r = k) (map (\<lambda>r. if f r = k then y else r) xs) = Some y"
  by (induction xs) auto

lemma topic_by_id_set_topic:
  "set_topic c k n d p s = Inr (t, s') \<Longrightarrow> k \<in> t_id ` set (topics s) \<Longrightarrow>
   topic_by_id s' k = Some t"
  by (auto simp: set_topic_def topic_by_id_def Let_def find_map_update split: sum.splits)

lemma skill_by_id_set_skill:
  "set_skill c k n tid d s = Inr (x, s') \<Longrightarrow> k \<in> sk_id ` set (skills s) \<Longrightarrow>
   skill_by_id s' k = Some x"
  by (auto simp: set_skill_def skill_by_id_def Let_def find_map_update
      split: sum.splits option.splits)

lemma set_topic_fields:
  "set_topic c k n d p s = Inr (t, s') \<Longrightarrow>
   t_id t = k \<and> t_name t = n \<and> as_text c d = Inr (t_description t) \<and>
   as_key c p = Inr (t_parent_topic_id t)"
  by (auto simp: set_topic_def Let_def split: sum.splits)

lemma set_skill_fields:
  "set_skill c k n tid d s = Inr (x, s') \<Longrightarrow>
   sk_id x = k \<and> sk_name x = n \<and> as_key c tid = Inr (Some (sk_topic_id x)) \<and>
   sk_difficulty x = d"
  by (auto simp: set_skill_def Let_def split: sum.splits option.splits)

lemma add_skill_fields:
  "add_skill c n tid d s = Inr (x, s') \<Longrightarrow>
   sk_name x = n \<and> sk_difficulty x = d \<and> skills s' = skills s @ [x]"
  by (auto simp: add_skill_def Let_def split: sum.splits option.splits)

lemma topic_get_JInt: "topic_get c s (JInt n) = Inr (topic_by_id s n)"
  by (simp add: topic_get_def get_key_def)

lemma topic_get_JNull: "topic_get c s JNull = Inr None"
  by (simp add: topic_get_def get_key_def)

section \<open>Members of the payload\<close>

lemma strip_Nil: "strip [] = []"
  by (simp add: strip_def lstrip_def rstrip_def)

lemma dict_get_absent: "dict_member kvs key = None \<Longrightarrow> dict_get kvs key = JNull"
  by (simp add: dict_get_def dict_get_default_def)

lemma strip_of_text: "falsy_or_text v \<Longrightarrow> \<exists>n. strip_of (py_or v (JStr d)) = Inr n"
  by (cases v) (simp_all add: falsy_or_text_def py_or_def strip_of_def)

lemma strip_of_not_text:
  "truthy v \<Longrightarrow> \<not> falsy_or_text v \<Longrightarrow> strip_of (py_or v (JStr d)) = Inl AttributeError"
  by (cases v) (simp_all add: falsy_or_text_def py_or_def strip_of_def)

lemma as_text_ok:
  "as_text c (dict_get kvs key) = Inr d0 \<Longrightarrow>
   \<exists>d. as_text c (dict_get_default kvs key (text_json old)) = Inr d"
  by (cases "dict_member kvs key"; cases old)
    (auto simp: dict_get_def dict_get_default_def as_text_def text_json_def)

section \<open>The handlers, once the payload is read\<close>

lemma create_topic_resolved:
  assumes "payload_of b = JObj kvs"
    and "strip_of (py_or (dict_get kvs ''name'') (JStr [])) = Inr n"
  shows "create_topic c b s =
     (if n = [] then (Response (Error ''Field 'name' is required.'') 422, s)
      else (case parent_missing c s (dict_get kvs ''parentTopicID'') of
              Inl e \<Rightarrow> (Raised e, s)
            | Inr True \<Rightarrow> (Response (Error ''parentTopicID not found'') 422, s)
            | Inr False \<Rightarrow>
              (case add_topic c n (dict_get kvs ''description'')
                      (dict_get kvs ''parentTopicID'') s of
                 Inl e \<Rightarrow> (Raised e, s)
               | Inr (topic, s') \<Rightarrow> (Response (TopicOut topic) 201, s'))))"
  using assms by (simp add: create_topic_def as_dict_def Let_def)

lemma update_topic_ok_cases:
  assumes "update_topic c k b s = (Response res 200, s')"
    and "topic_by_id s k = Some t" and "payload_of b = JObj kvs"
  obtains name t' where
    "strip_of (py_or (dict_get kvs ''name'') (JStr (t_name t))) = Inr name"
    "set_topic c k name (dict_get_default kvs ''description'' (text_json (t_description t)))
       (dict_get_default kvs ''parentTopicID'' (key_json (t_parent_topic_id t))) s = Inr (t', s')"
    "res = TopicOut t'"
  using assms
  by (auto simp: update_topic_def as_dict_def Let_def
      split: sum.splits bool.splits prod.splits)

lemma create_skill_ok_cases:
  assumes "create_skill c b s = (Response res 201, s')" and "payload_of b = JObj kvs"
  obtains name difficulty x where
    "strip_of (py_or (dict_get kvs ''difficulty'') (JStr (lit ''unknown''))) = Inr difficulty"
    "add_skill c name (dict_get kvs ''topicID'') difficulty s = Inr (x, s')"
    "res = SkillOut x"
  using assms
  by (auto simp: create_skill_def as_dict_def Let_def
      split: sum.splits option.splits prod.splits if_splits)

lemma update_skill_resolved:
  assumes "skill_by_id s k = Some x" and "payload_of b = JObj kvs"
    and "strip_of (py_or (dict_get kvs ''name'') (JStr (sk_name x))) = Inr n"
    and "strip_of (py_or (dict_get kvs ''difficulty'') (JStr (sk_difficulty x))) = Inr d"
  shows "update_skill c k b s =
     (case topic_get c s (dict_get_default kvs ''topicID'' (JInt (sk_topic_id x))) of
        Inl e \<Rightarrow> (Raised e, s)
      | Inr None \<Rightarrow> (Response (Error ''topicID not found'') 422, s)
      | Inr (Some topic) \<Rightarrow>
        (case set_skill c k n (dict_get_default kvs ''topicID'' (JInt (sk_topic_id x))) d s of
           Inl e \<Rightarrow> (Raised e, s)
         | Inr (x', s') \<Rightarrow> (Response (SkillOut x') 200, s')))"
  using assms by (simp add: update_skill_def as_dict_def Let_def)

lemma update_skill_ok_cases:
  assumes "update_skill c k b s = (Response res 200, s')"
    and "skill_by_id s k = Some x" and "payload_of b = JObj kvs"
  obtains name difficulty x' where
    "strip_of (py_or (dict_get kvs ''name'') (JStr (sk_name x))) = Inr name"
    "strip_of (py_or (dict_get kvs ''difficulty'') (JStr (sk_difficulty x))) = Inr difficulty"
    "set_skill c k name (dict_get_default kvs ''topicID'' (JInt (sk_topic_id x))) difficulty s
       = Inr (x', s')"
    "res = SkillOut x'"
  using assms
  by (auto simp: update_skill_def as_dict_def Let_def
      split: sum.splits option.splits prod.splits)

text \<open>The evaluation of the handlers on a given body and store.\<close>

lemmas payload_simps =
  payload_of_def get_json_def py_or_def as_dict_def dict_get_def dict_get_default_def
  dict_member_def lit_def strip_of_def strip_def lstrip_def rstrip_def isspace_def
  falsy_or_text_def

lemmas store_simps =
  topic_by_id_def skill_by_id_def topic_get_def parent_missing_def get_key_def as_key_def
  as_text_def
  key_json_def text_json_def add_topic_def set_topic_def add_skill_def set_skill_def
  remove_topic_def remove_skill_def Let_def

lemmas example_simps =
  empty_store_def small_store_def topic1_def topic2_def skill1_def

section \<open>Listing\<close>

text \<open>
  C8. For every stored state, \<open>GET /topics\<close> answers 200 with all stored topics and
  \<open>GET /skills\<close> with all stored skills, each row once for each time it is stored,
  in ascending order of the name under the collation of the store; the store is left
  as it was.
\<close>

theorem list_sorted_by_name:
  "(\<exists>rows. get_topics collate s = (Response (TopicsOut rows) 200, s) \<and>
            mset rows = mset (topics s) \<and> sorted (map (\<lambda>t. collate (t_name t)) rows)) \<and>
   (\<exists>rows. get_skills collate s = (Response (SkillsOut rows) 200, s) \<and>
            mset rows = mset (skills s) \<and> sorted (map (\<lambda>x. collate (sk_name x)) rows))"
  by (simp add: get_topics_def get_skills_def)

section \<open>Creating a topic\<close>

text \<open>
  C10. A \<open>POST /topics\<close> whose body is missing or is not valid JSON is handled as the
  empty payload: the answer is 422 with the message that the field name is required,
  no exception is raised, and the store is left as it was.
\<close>

theorem create_topic_without_json:
  "create_topic c NoJson s = (Response (Error ''Field 'name' is required.'') 422, s)"
  by (simp add: create_topic_def payload_of_def get_json_def py_or_def as_dict_def
      dict_get_def dict_get_default_def dict_member_def strip_of_def strip_def lstrip_def
      rstrip_def)

text \<open>
  What \<open>create_topic\<close> checks. With a body that is a JSON object (or missing, or not
  JSON), it answers 422 "Field 'name' is required." when the name is absent, null or a
  string that is empty after trimming. With a name that is not empty after trimming,
  when \<open>parentTopicID\<close> is a value that Python takes as true and the lookup by it finds
  no topic, it answers 422 "parentTopicID not found". In both cases the store is left
  as it was.
\<close>

lemma create_topic_checks:
  assumes "payload_of b = JObj kvs"
  shows "((dict_get kvs ''name'' = JNull \<or>
           (\<exists>n. dict_get kvs ''name'' = JStr n \<and> strip n = [])) \<longrightarrow>
            create_topic c b s = (Response (Error ''Field 'name' is required.'') 422, s)) \<and>
         (\<forall>n. dict_get kvs ''name'' = JStr n \<and> strip n \<noteq> [] \<and>
              truthy (dict_get kvs ''parentTopicID'') \<and>
              topic_get c s (dict_get kvs ''parentTopicID'') = Inr None \<longrightarrow>
            create_topic c b s = (Response (Error ''parentTopicID not found'') 422, s))"
proof (intro conjI impI allI)
  assume "dict_get kvs ''name'' = JNull \<or> (\<exists>n. dict_get kvs ''name'' = JStr n \<and> strip n = [])"
  then have "strip_of (py_or (dict_get kvs ''name'') (JStr [])) = Inr []"
    by (auto simp: py_or_def strip_of_def strip_Nil)
  from create_topic_resolved [OF assms this]
  show "create_topic c b s = (Response (Error ''Field 'name' is required.'') 422, s)"
    by simp
next
  fix n
  assume a: "dict_get kvs ''name'' = JStr n \<and> strip n \<noteq> [] \<and>
    truthy (dict_get kvs ''parentTopicID'') \<and>
    topic_get c s (dict_get kvs ''parentTopicID'') = Inr None"
  then have "n \<noteq> []"
    by (auto simp: strip_Nil)
  with a have "strip_of (py_or (dict_get kvs ''name'') (JStr [])) = Inr (strip n)"
    by (simp add: py_or_def strip_of_def)
  from create_topic_resolved [OF assms this] a
  show "create_topic c b s = (Response (Error ''parentTopicID not found'') 422, s)"
    by (simp add: parent_missing_def)
qed

text \<open>
  C4. The claim asks for 422 and no persisted row whenever \<open>parentTopicID\<close> is
  supplied and no topic has that id. The handler does otherwise where the supplied
  \<open>parentTopicID\<close> is 0: \<open>if parent_id:\<close> takes 0 as false, so the lookup that the
  docstring and the comment of \<open>create_topic\<close> announce is skipped. On the empty
  store, where no topic has the id 0, the answer is 201 and the row is persisted with
  the parent 0, under every reading of the store.
\<close>

theorem create_topic_zero_parent:
  "topic_by_id empty_store 0 = None \<and>
   create_topic c (Json (JObj [(lit ''name'', JStr [65]), (lit ''parentTopicID'', JInt 0)]))
       empty_store =
     (Response (TopicOut \<lparr>t_id = 1, t_name = [65], t_description = None,
                          t_parent_topic_id = Some 0\<rparr>) 201,
      \<lparr>topics = [\<lparr>t_id = 1, t_name = [65], t_description = None, t_parent_topic_id = Some 0\<rparr>],
       skills = [], topic_seq = 2, skill_seq = 1\<rparr>)"
  by (simp add: create_topic_def payload_simps store_simps example_simps)

section \<open>Deleting a topic\<close>

text \<open>
  C2. \<open>DELETE /topics/{id}\<close> answers 404 when no topic has the id. Otherwise both
  dependency tests are made on the store as it is, before any delete: it answers 409
  with the message about dependent skills when a skill has this \<open>topic_id\<close> (also when
  a topic has this parent as well), 409 with the message about dependent topics when
  only a topic has this \<open>parent_topic_id\<close>, and in these three cases the store is left
  as it was. Otherwise it answers 204, and the store is the old one without the rows
  of that id.
\<close>

theorem delete_topic_cases:
  "delete_topic k s =
     (if k \<notin> t_id ` set (topics s)
      then (Response (Error ''Topic not found'') 404, s)
      else if \<exists>x \<in> set (skills s). sk_topic_id x = k
      then (Response (Error ''The topic has dependent skills, cannot delete the topic'') 409, s)
      else if \<exists>t \<in> set (topics s). t_parent_topic_id t = Some k
      then (Response (Error ''The topic has dependent topics, cannot delete the topic'') 409, s)
      else (Response (Text []) 204, s\<lparr>topics := filter (\<lambda>r. t_id r \<noteq> k) (topics s)\<rparr>))"
proof (cases "topic_by_id s k")
  case None
  moreover from None have "k \<notin> t_id ` set (topics s)"
    by (simp add: topic_by_id_None)
  ultimately show ?thesis
    by (simp add: delete_topic_def)
next
  case (Some t)
  then have "k \<in> t_id ` set (topics s)"
    by (rule topic_by_id_Some)
  with Some show ?thesis
    by (simp add: delete_topic_def list_ex_iff remove_topic_def)
qed

theorem delete_topic_cases_witness:
  "delete_topic 7 small_store = (Response (Error ''Topic not found'') 404, small_store) \<and>
   delete_topic 1 small_store =
     (Response (Error ''The topic has dependent skills, cannot delete the topic'') 409,
      small_store) \<and>
   delete_topic 1 (small_store\<lparr>skills := []\<rparr>) =
     (Response (Error ''The topic has dependent topics, cannot delete the topic'') 409,
      small_store\<lparr>skills := []\<rparr>) \<and>
   delete_topic 2 small_store = (Response (Text []) 204, small_store\<lparr>topics := [topic1]\<rparr>)"
  using delete_topic_cases [of 7 small_store] delete_topic_cases [of 1 small_store]
    delete_topic_cases [of 1 "small_store\<lparr>skills := []\<rparr>"]
    delete_topic_cases [of 2 small_store]
  by (simp add: small_store_def topic1_def topic2_def skill1_def)

text \<open>
  C7. In every store, deleting a topic that exists, that no skill has as \<open>topic_id\<close> and
  no topic has as \<open>parent_topic_id\<close>, answers 204, and a \<open>GET /topics/{id}\<close> for the
  same id on the store after it answers 404.
\<close>

theorem delete_then_get:
  assumes "k \<in> t_id ` set (topics s)"
    and "\<forall>x \<in> set (skills s). sk_topic_id x \<noteq> k"
    and "\<forall>t \<in> set (topics s). t_parent_topic_id t \<noteq> Some k"
  shows "\<exists>s'. delete_topic k s = (Response (Text []) 204, s') \<and>
              get_topic_by_id k s' = (Response (Error ''Topic not found'') 404, s')"
proof -
  obtain t where t: "topic_by_id s k = Some t"
    using assms(1) topic_by_id_None [of s k] by (cases "topic_by_id s k") auto
  have "delete_topic k s = (Response (Text []) 204, remove_topic k s)"
    using t assms(2,3) by (simp add: delete_topic_def list_ex_iff)
  moreover have "get_topic_by_id k (remove_topic k s) =
      (Response (Error ''Topic not found'') 404, remove_topic k s)"
    by (simp add: get_topic_by_id_def topic_by_id_remove)
  ultimately show ?thesis by blast
qed

theorem delete_then_get_witness:
  "\<exists>s'. delete_topic 2 small_store = (Response (Text []) 204, s') \<and>
        get_topic_by_id 2 s' = (Response (Error ''Topic not found'') 404, s')"
  using delete_then_get [of 2 small_store]
  by (simp add: small_store_def topic1_def topic2_def skill1_def)

section \<open>No partial writes\<close>

lemma create_topic_write:
  "create_topic c b s = (out, s') \<Longrightarrow> (if succeeded out then one_write s s' else s' = s)"
  by (auto simp: create_topic_def succeeded_def status_of_def Let_def
      split: option.splits sum.splits bool.splits if_splits prod.splits
      dest: add_topic_write)

lemma update_topic_write:
  "update_topic c k b s = (out, s') \<Longrightarrow> (if succeeded out then one_write s s' else s' = s)"
  by (auto simp: update_topic_def succeeded_def status_of_def Let_def
      split: option.splits sum.splits bool.splits if_splits prod.splits
      dest: set_topic_write topic_by_id_Some)

lemma delete_topic_write:
  "delete_topic k s = (out, s') \<Longrightarrow> (if succeeded out then one_write s s' else s' = s)"
  by (auto simp: delete_topic_def succeeded_def status_of_def Let_def remove_topic_def
      split: option.splits if_splits
      dest!: topic_by_id_Some intro: one_write.topic_deleted)

lemma create_skill_write:
  "create_skill c b s = (out, s') \<Longrightarrow> (if succeeded out then one_write s s' else s' = s)"
  by (auto simp: create_skill_def succeeded_def status_of_def Let_def
      split: option.splits sum.splits bool.splits if_splits prod.splits
      dest: add_skill_write)

lemma update_skill_write:
  "update_skill c k b s = (out, s') \<Longrightarrow> (if succeeded out then one_write s s' else s' = s)"
  by (auto simp: update_skill_def succeeded_def status_of_def Let_def
      split: option.splits sum.splits bool.splits if_splits prod.splits
      dest: set_skill_write skill_by_id_Some)

lemma delete_skill_write:
  "delete_skill k s = (out, s') \<Longrightarrow> (if succeeded out then one_write s s' else s' = s)"
  by (auto simp: delete_skill_def succeeded_def status_of_def Let_def remove_skill_def
      split: option.splits if_splits
      dest!: skill_by_id_Some intro: one_write.skill_deleted)

lemma reads_keep:
  "get_topics collate s = (out, s') \<Longrightarrow> s' = s"
  "get_skills collate s = (out, s') \<Longrightarrow> s' = s"
  "get_topic_by_id k s = (out, s') \<Longrightarrow> s' = s"
  "get_skill_by_id k s = (out, s') \<Longrightarrow> s' = s"
  by (auto simp: get_topics_def get_skills_def get_topic_by_id_def get_skill_by_id_def Let_def
      split: option.splits)

text \<open>
  C5. For every request to a topic or skill route: when the answer is 404, 409 or 422,
  the store after the request is the store before it. A request that changes the
  store at all is a POST, PUT or DELETE that answered 200, 201 or 204, and its change
  is one write: one row inserted, rewritten or removed. In every other case nothing
  is written.
\<close>

theorem no_partial_write:
  assumes "handle c collate r s = (out, s')"
  shows "(status_of out \<in> {404, 409, 422} \<longrightarrow> s' = s) \<and>
         (if writes r \<and> succeeded out then one_write s s' else s' = s)"
proof -
  have "if writes r \<and> succeeded out then one_write s s' else s' = s"
    using assms
    by (cases r)
      (simp_all add: create_topic_write update_topic_write delete_topic_write
        create_skill_write update_skill_write delete_skill_write reads_keep)
  moreover have "status_of out \<in> {404, 409, 422} \<Longrightarrow> \<not> succeeded out"
    by (auto simp: succeeded_def)
  ultimately show ?thesis
    by (auto split: if_splits)
qed

theorem no_partial_write_witness:
  "handle strict length (DELETE_topic 1) small_store =
     (Response (Error ''The topic has dependent skills, cannot delete the topic'') 409,
      small_store) \<and>
   handle strict length (DELETE_topic 2) small_store =
     (Response (Text []) 204, small_store\<lparr>topics := [topic1]\<rparr>) \<and>
   one_write small_store (small_store\<lparr>topics := [topic1]\<rparr>)"
proof -
  have a: "handle strict length (DELETE_topic 1) small_store =
     (Response (Error ''The topic has dependent skills, cannot delete the topic'') 409,
      small_store)"
    by (simp add: delete_topic_def topic_by_id_def small_store_def topic1_def topic2_def
        skill1_def)
  have b: "handle strict length (DELETE_topic 2) small_store =
     (Response (Text []) 204, small_store\<lparr>topics := [topic1]\<rparr>)"
    by (simp add: delete_topic_def topic_by_id_def remove_topic_def small_store_def topic1_def
        topic2_def skill1_def)
  have "one_write small_store (small_store\<lparr>topics := [topic1]\<rparr>)"
    using no_partial_write [OF b] by (simp add: succeeded_def status_of_def)
  with a b show ?thesis
    by simp
qed

section \<open>Updating\<close>

text \<open>
  C6. For every existing topic and every existing skill, an update whose body has no
  member \<open>name\<close> and that answers 200 stores, under the same id, the previously stored
  name trimmed: the stored value itself goes through \<open>strip\<close>, also when the request
  changes nothing.
\<close>

theorem update_retrims_name:
  "(topic_by_id s k = Some t \<and> payload_of b = JObj kvs \<and> dict_member kvs ''name'' = None \<and>
    update_topic c k b s = (Response res 200, s') \<longrightarrow>
      (\<exists>t'. res = TopicOut t' \<and> topic_by_id s' k = Some t' \<and> t_name t' = strip (t_name t))) \<and>
   (skill_by_id s k = Some x \<and> payload_of b = JObj kvs \<and> dict_member kvs ''name'' = None \<and>
    update_skill c k b s = (Response res 200, s') \<longrightarrow>
      (\<exists>x'. res = SkillOut x' \<and> skill_by_id s' k = Some x' \<and> sk_name x' = strip (sk_name x)))"
proof (intro conjI impI)
  assume a: "topic_by_id s k = Some t \<and> payload_of b = JObj kvs \<and>
    dict_member kvs ''name'' = None \<and> update_topic c k b s = (Response res 200, s')"
  then obtain name t' where
    n: "strip_of (py_or (dict_get kvs ''name'') (JStr (t_name t))) = Inr name"
    and w: "set_topic c k name (dict_get_default kvs ''description'' (text_json (t_description t)))
       (dict_get_default kvs ''parentTopicID'' (key_json (t_parent_topic_id t))) s = Inr (t', s')"
    and c: "res = TopicOut t'"
    by (elim conjE update_topic_ok_cases)
  from a n have "name = strip (t_name t)"
    by (simp add: dict_get_absent py_or_def strip_of_def)
  moreover from a have "k \<in> t_id ` set (topics s)"
    by (auto dest: topic_by_id_Some)
  ultimately show "\<exists>t'. res = TopicOut t' \<and> topic_by_id s' k = Some t' \<and>
      t_name t' = strip (t_name t)"
    using w c topic_by_id_set_topic [OF w] set_topic_fields [OF w] by simp
next
  assume a: "skill_by_id s k = Some x \<and> payload_of b = JObj kvs \<and>
    dict_member kvs ''name'' = None \<and> update_skill c k b s = (Response res 200, s')"
  then obtain name difficulty x' where
    n: "strip_of (py_or (dict_get kvs ''name'') (JStr (sk_name x))) = Inr name"
    and w: "set_skill c k name (dict_get_default kvs ''topicID'' (JInt (sk_topic_id x)))
       difficulty s = Inr (x', s')"
    and c: "res = SkillOut x'"
    by (elim conjE update_skill_ok_cases)
  from a n have "name = strip (sk_name x)"
    by (simp add: dict_get_absent py_or_def strip_of_def)
  moreover from a have "k \<in> sk_id ` set (skills s)"
    by (auto dest: skill_by_id_Some)
  ultimately show "\<exists>x'. res = SkillOut x' \<and> skill_by_id s' k = Some x' \<and>
      sk_name x' = strip (sk_name x)"
    using w c skill_by_id_set_skill [OF w] set_skill_fields [OF w] by simp
qed

text \<open>
  Topic 2 is stored as " B " and skill 1 as " S"; a PUT without a body stores "B" and "S".
\<close>

theorem update_retrims_name_witness:
  "update_topic strict 2 NoJson small_store =
     (Response (TopicOut (topic2\<lparr>t_name := [66]\<rparr>)) 200,
      small_store\<lparr>topics := [topic1, topic2\<lparr>t_name := [66]\<rparr>]\<rparr>) \<and>
   (\<exists>t'. topic_by_id (small_store\<lparr>topics := [topic1, topic2\<lparr>t_name := [66]\<rparr>]\<rparr>) 2 = Some t' \<and>
         t_name t' = strip (t_name topic2)) \<and>
   strip (t_name topic2) \<noteq> t_name topic2 \<and>
   update_skill strict 1 NoJson small_store =
     (Response (SkillOut (skill1\<lparr>sk_name := [83]\<rparr>)) 200,
      small_store\<lparr>skills := [skill1\<lparr>sk_name := [83]\<rparr>]\<rparr>) \<and>
   (\<exists>x'. skill_by_id (small_store\<lparr>skills := [skill1\<lparr>sk_name := [83]\<rparr>]\<rparr>) 1 = Some x' \<and>
         sk_name x' = strip (sk_name skill1))"
proof -
  have t: "update_topic strict 2 NoJson small_store =
     (Response (TopicOut (topic2\<lparr>t_name := [66]\<rparr>)) 200,
      small_store\<lparr>topics := [topic1, topic2\<lparr>t_name := [66]\<rparr>]\<rparr>)"
    by (simp add: update_topic_def payload_simps store_simps example_simps)
  have x: "update_skill strict 1 NoJson small_store =
     (Response (SkillOut (skill1\<lparr>sk_name := [83]\<rparr>)) 200,
      small_store\<lparr>skills := [skill1\<lparr>sk_name := [83]\<rparr>]\<rparr>)"
    by (simp add: update_skill_def payload_simps store_simps example_simps)
  have rows: "topic_by_id small_store 2 = Some topic2" "skill_by_id small_store 1 = Some skill1"
    by (simp_all add: topic_by_id_def skill_by_id_def example_simps)
  have body: "payload_of NoJson = JObj []" "dict_member [] ''name'' = None"
    by (simp_all add: payload_of_def get_json_def py_or_def dict_member_def)
  have "strip (t_name topic2) \<noteq> t_name topic2"
    by (simp add: topic2_def strip_def lstrip_def rstrip_def isspace_def)
  then show ?thesis
    using t x rows body
      update_retrims_name [where c = strict and s = small_store and k = 2 and t = topic2
        and b = NoJson and kvs = "[]" and res = "TopicOut (topic2\<lparr>t_name := [66]\<rparr>)"
        and s' = "small_store\<lparr>topics := [topic1, topic2\<lparr>t_name := [66]\<rparr>]\<rparr>"]
      update_retrims_name [where c = strict and s = small_store and k = 1 and x = skill1
        and b = NoJson and kvs = "[]" and res = "SkillOut (skill1\<lparr>sk_name := [83]\<rparr>)"
        and s' = "small_store\<lparr>skills := [skill1\<lparr>sk_name := [83]\<rparr>]\<rparr>"]
    by blast
qed

text \<open>
  On an existing topic and a body that is a JSON object, a \<open>name\<close> that Python takes as
  true and that is no string makes \<open>.strip()\<close> raise, before anything else of the body
  is read; on an existing skill the same holds for \<open>name\<close>.
\<close>

lemma update_topic_name_not_text:
  assumes "topic_by_id s k = Some t" and "payload_of b = JObj kvs"
    and "truthy (dict_get kvs ''name'')" and "\<not> falsy_or_text (dict_get kvs ''name'')"
  shows "update_topic c k b s = (Raised AttributeError, s)"
  using assms(1,2) strip_of_not_text [OF assms(3,4), of "t_name t"]
  by (simp add: update_topic_def as_dict_def)

lemma update_skill_name_not_text:
  assumes "skill_by_id s k = Some x" and "payload_of b = JObj kvs"
    and "truthy (dict_get kvs ''name'')" and "\<not> falsy_or_text (dict_get kvs ''name'')"
  shows "update_skill c k b s = (Raised AttributeError, s)"
  using assms(1,2) strip_of_not_text [OF assms(3,4), of "sk_name x"]
  by (simp add: update_skill_def as_dict_def)

text \<open>
  C9, as the code has it. For every existing topic, a \<open>PUT /topics/{id}\<close> whose body
  contains \<open>parentTopicID\<close> with the value null, whose \<open>name\<close> is a string or a value
  that Python takes as false (absent, null, \<open>0\<close>, \<open>false\<close>, \<open>[]\<close>, \<open>{}\<close>), and whose
  \<open>description\<close> is one the store takes (absent, null and strings are always taken),
  answers 200 and stores the topic with no parent: the existence of a parent is not
  checked, whatever the store holds. When the member is absent instead, an update
  that answers 200 keeps the parent stored before.
\<close>

theorem update_topic_null_parent:
  assumes "topic_by_id s k = Some t" and "payload_of b = JObj kvs"
    and "falsy_or_text (dict_get kvs ''name'')"
    and "as_text c (dict_get kvs ''description'') = Inr d0"
  shows "(dict_member kvs ''parentTopicID'' = Some JNull \<longrightarrow>
           (\<exists>t' s'. update_topic c k b s = (Response (TopicOut t') 200, s') \<and>
                    topic_by_id s' k = Some t' \<and> t_parent_topic_id t' = None)) \<and>
         (dict_member kvs ''parentTopicID'' = None \<longrightarrow>
           (\<forall>res s'. update_topic c k b s = (Response res 200, s') \<longrightarrow>
              (\<exists>t'. res = TopicOut t' \<and> topic_by_id s' k = Some t' \<and>
                    t_parent_topic_id t' = t_parent_topic_id t)))"
proof (intro conjI impI allI)
  assume null: "dict_member kvs ''parentTopicID'' = Some JNull"
  obtain n where n: "strip_of (py_or (dict_get kvs ''name'') (JStr (t_name t))) = Inr n"
    using strip_of_text [OF assms(3)] by blast
  obtain d where d: "as_text c (dict_get_default kvs ''description''
      (text_json (t_description t))) = Inr d"
    using as_text_ok [OF assms(4)] by blast
  let ?t = "\<lparr>t_id = k, t_name = n, t_description = d, t_parent_topic_id = None\<rparr>"
  let ?s = "s\<lparr>topics := map (\<lambda>r. if t_id r = k then ?t else r) (topics s)\<rparr>"
  have w: "set_topic c k n (dict_get_default kvs ''description'' (text_json (t_description t)))
      JNull s = Inr (?t, ?s)"
    using d by (simp add: set_topic_def as_key_def Let_def)
  have "update_topic c k b s = (Response (TopicOut ?t) 200, ?s)"
    using assms(1,2) n null w
    by (simp add: update_topic_def as_dict_def dict_get_default_def parent_missing_def Let_def)
  moreover have "topic_by_id ?s k = Some ?t"
    using topic_by_id_set_topic [OF w] topic_by_id_Some [OF assms(1)] by simp
  ultimately show "\<exists>t' s'. update_topic c k b s = (Response (TopicOut t') 200, s') \<and>
      topic_by_id s' k = Some t' \<and> t_parent_topic_id t' = None"
    by auto
next
  fix res s'
  assume absent: "dict_member kvs ''parentTopicID'' = None"
    and ok: "update_topic c k b s = (Response res 200, s')"
  from ok assms(1,2) obtain name t' where
    w: "set_topic c k name
       (dict_get_default kvs ''description'' (text_json (t_description t)))
       (dict_get_default kvs ''parentTopicID'' (key_json (t_parent_topic_id t))) s = Inr (t', s')"
    and r: "res = TopicOut t'"
    by (rule update_topic_ok_cases)
  have "as_key c (key_json (t_parent_topic_id t)) = Inr (t_parent_topic_id t')"
    using set_topic_fields [OF w] absent by (simp add: dict_get_default_def)
  then have "t_parent_topic_id t' = t_parent_topic_id t"
    by (cases "t_parent_topic_id t") (simp_all add: key_json_def as_key_def)
  then show "\<exists>t'. res = TopicOut t' \<and> topic_by_id s' k = Some t' \<and>
      t_parent_topic_id t' = t_parent_topic_id t"
    using r topic_by_id_set_topic [OF w] topic_by_id_Some [OF assms(1)] by simp
qed

text \<open>
  Topic 2 has the parent 1; the body \<open>{"parentTopicID": null}\<close> detaches it, and the
  body \<open>{"description": null}\<close> keeps it.
\<close>

theorem update_topic_null_parent_witness:
  "(\<exists>t' s'. update_topic strict 2 (Json (JObj [(lit ''parentTopicID'', JNull)])) small_store =
             (Response (TopicOut t') 200, s') \<and>
           topic_by_id s' 2 = Some t' \<and> t_parent_topic_id t' = None) \<and>
   t_parent_topic_id topic2 = Some 1 \<and>
   update_topic strict 2 (Json (JObj [(lit ''description'', JNull)])) small_store =
     (Response (TopicOut (topic2\<lparr>t_name := [66]\<rparr>)) 200,
      small_store\<lparr>topics := [topic1, topic2\<lparr>t_name := [66]\<rparr>]\<rparr>) \<and>
   (\<exists>t'. topic_by_id (small_store\<lparr>topics := [topic1, topic2\<lparr>t_name := [66]\<rparr>]\<rparr>) 2 = Some t' \<and>
         t_parent_topic_id t' = t_parent_topic_id topic2)"
proof -
  have keep: "update_topic strict 2 (Json (JObj [(lit ''description'', JNull)])) small_store =
     (Response (TopicOut (topic2\<lparr>t_name := [66]\<rparr>)) 200,
      small_store\<lparr>topics := [topic1, topic2\<lparr>t_name := [66]\<rparr>]\<rparr>)"
    by (simp add: update_topic_def payload_simps store_simps example_simps)
  have row: "topic_by_id small_store 2 = Some topic2"
    by (simp add: topic_by_id_def example_simps)
  have null: "payload_of (Json (JObj [(lit ''parentTopicID'', JNull)])) =
      JObj [(lit ''parentTopicID'', JNull)]"
    "falsy_or_text (dict_get [(lit ''parentTopicID'', JNull)] ''name'')"
    "as_text strict (dict_get [(lit ''parentTopicID'', JNull)] ''description'') = Inr None"
    "dict_member [(lit ''parentTopicID'', JNull)] ''parentTopicID'' = Some JNull"
    by (simp_all add: payload_simps as_text_def)
  have absent: "payload_of (Json (JObj [(lit ''description'', JNull)])) =
      JObj [(lit ''description'', JNull)]"
    "falsy_or_text (dict_get [(lit ''description'', JNull)] ''name'')"
    "as_text strict (dict_get [(lit ''description'', JNull)] ''description'') = Inr None"
    "dict_member [(lit ''description'', JNull)] ''parentTopicID'' = None"
    by (simp_all add: payload_simps as_text_def)
  have "t_parent_topic_id topic2 = Some 1"
    by (simp add: topic2_def)
  then show ?thesis
    using keep update_topic_null_parent [OF row null(1,2,3)]
      update_topic_null_parent [OF row absent(1,2,3)] null(4) absent(4)
    by blast
qed

text \<open>
  C9 as stated fails where the body with \<open>parentTopicID\<close> null also has a \<open>name\<close> that
  is no string: with \<open>"name": 5\<close> on the existing topic 2, \<open>.strip()\<close> raises
  \<open>AttributeError\<close>, the answer is 500 and not 200, and the parent of topic 2 stays.
\<close>

theorem update_topic_null_parent_counterexample:
  "topic_by_id small_store 2 = Some topic2 \<and>
   update_topic strict 2
       (Json (JObj [(lit ''parentTopicID'', JNull), (lit ''name'', JInt 5)])) small_store =
     (Raised AttributeError, small_store) \<and>
   status_of (Raised AttributeError) = 500"
  by (simp add: update_topic_def status_of_def payload_simps store_simps example_simps)

text \<open>
  C1, as the code has it. For every existing skill and every body whose \<open>name\<close> and
  \<open>difficulty\<close> are each a string or a value that Python takes as false (absent, null,
  \<open>0\<close>, \<open>false\<close>, \<open>[]\<close>, \<open>{}\<close>): when \<open>topicID\<close> is absent, the prior stored
  \<open>topic_id\<close> is the one resolved, and the update answers 200 with the \<open>topic_id\<close> kept
  when a topic has that id. When \<open>topicID\<close> is supplied as null there is no fallback:
  the answer is 422 "topicID not found". And the resolved \<open>topicID\<close>, the supplied
  value of any type or else the prior one, is always looked up again: whenever that
  lookup finds no topic, the answer is 422 "topicID not found" and the store is left
  as it was, also when the \<open>topicID\<close> was unchanged.
\<close>

theorem update_skill_topic_checked:
  assumes "skill_by_id s k = Some x" and "payload_of b = JObj kvs"
    and "falsy_or_text (dict_get kvs ''name'')"
    and "falsy_or_text (dict_get kvs ''difficulty'')"
  shows "(dict_member kvs ''topicID'' = None \<longrightarrow>
           dict_get_default kvs ''topicID'' (JInt (sk_topic_id x)) = JInt (sk_topic_id x) \<and>
           (if sk_topic_id x \<in> t_id ` set (topics s)
            then \<exists>x' s'. update_skill c k b s = (Response (SkillOut x') 200, s') \<and>
                   skill_by_id s' k = Some x' \<and> sk_topic_id x' = sk_topic_id x
            else update_skill c k b s = (Response (Error ''topicID not found'') 422, s))) \<and>
         (dict_member kvs ''topicID'' = Some JNull \<longrightarrow>
            update_skill c k b s = (Response (Error ''topicID not found'') 422, s)) \<and>
         (topic_get c s (dict_get_default kvs ''topicID'' (JInt (sk_topic_id x))) = Inr None \<longrightarrow>
            update_skill c k b s = (Response (Error ''topicID not found'') 422, s))"
proof -
  obtain n where n: "strip_of (py_or (dict_get kvs ''name'') (JStr (sk_name x))) = Inr n"
    using strip_of_text [OF assms(3)] by blast
  obtain d where
    d: "strip_of (py_or (dict_get kvs ''difficulty'') (JStr (sk_difficulty x))) = Inr d"
    using strip_of_text [OF assms(4)] by blast
  note r = update_skill_resolved [OF assms(1,2) n d]
  have looked_up: "topic_get c s (dict_get_default kvs ''topicID'' (JInt (sk_topic_id x))) = Inr None
      \<Longrightarrow> update_skill c k b s = (Response (Error ''topicID not found'') 422, s)"
    using r by simp
  have absent: "dict_member kvs ''topicID'' = None \<Longrightarrow>
      (if sk_topic_id x \<in> t_id ` set (topics s)
       then \<exists>x' s'. update_skill c k b s = (Response (SkillOut x') 200, s') \<and>
              skill_by_id s' k = Some x' \<and> sk_topic_id x' = sk_topic_id x
       else update_skill c k b s = (Response (Error ''topicID not found'') 422, s))"
  proof -
    assume a: "dict_member kvs ''topicID'' = None"
    show ?thesis
    proof (cases "topic_by_id s (sk_topic_id x)")
      case None
      then have "sk_topic_id x \<notin> t_id ` set (topics s)"
        by (simp add: topic_by_id_None)
      moreover have "update_skill c k b s = (Response (Error ''topicID not found'') 422, s)"
        using looked_up a None by (simp add: dict_get_default_def topic_get_JInt)
      ultimately show ?thesis
        by simp
    next
      case (Some t)
      let ?x = "\<lparr>sk_id = k, sk_name = n, sk_topic_id = sk_topic_id x, sk_difficulty = d\<rparr>"
      let ?s = "s\<lparr>skills := map (\<lambda>r. if sk_id r = k then ?x else r) (skills s)\<rparr>"
      have w: "set_skill c k n (JInt (sk_topic_id x)) d s = Inr (?x, ?s)"
        by (simp add: set_skill_def as_key_def Let_def)
      have "update_skill c k b s = (Response (SkillOut ?x) 200, ?s)"
        using r a Some w by (simp add: dict_get_default_def topic_get_JInt)
      moreover have "skill_by_id ?s k = Some ?x"
        using skill_by_id_set_skill [OF w] skill_by_id_Some [OF assms(1)] by simp
      moreover have "sk_topic_id x \<in> t_id ` set (topics s)"
        using Some by (rule topic_by_id_Some)
      ultimately show ?thesis
        by auto
    qed
  qed
  have null: "dict_member kvs ''topicID'' = Some JNull \<Longrightarrow>
      update_skill c k b s = (Response (Error ''topicID not found'') 422, s)"
    using looked_up by (simp add: dict_get_default_def topic_get_JNull)
  have "dict_member kvs ''topicID'' = None \<Longrightarrow>
      dict_get_default kvs ''topicID'' (JInt (sk_topic_id x)) = JInt (sk_topic_id x)"
    by (simp add: dict_get_default_def)
  then show ?thesis
    using absent null looked_up by blast
qed

text \<open>
  Skill 1 belongs to topic 1: without a body its \<open>topic_id\<close> is kept; no topic has the
  id 5.
\<close>

theorem update_skill_topic_checked_witness:
  "(\<exists>x' s'. update_skill strict 1 NoJson small_store = (Response (SkillOut x') 200, s') \<and>
       skill_by_id s' 1 = Some x' \<and> sk_topic_id x' = sk_topic_id skill1) \<and>
   topic_get strict small_store (JInt 5) = Inr None \<and>
   update_skill strict 1 (Json (JObj [(lit ''topicID'', JInt 5)])) small_store =
     (Response (Error ''topicID not found'') 422, small_store)"
proof -
  have row: "skill_by_id small_store 1 = Some skill1"
    by (simp add: skill_by_id_def example_simps)
  have none: "payload_of NoJson = JObj []"
    "falsy_or_text (dict_get [] ''name'')" "falsy_or_text (dict_get [] ''difficulty'')"
    "dict_member [] ''topicID'' = None"
    by (simp_all add: payload_simps)
  have five: "payload_of (Json (JObj [(lit ''topicID'', JInt 5)])) =
      JObj [(lit ''topicID'', JInt 5)]"
    "falsy_or_text (dict_get [(lit ''topicID'', JInt 5)] ''name'')"
    "falsy_or_text (dict_get [(lit ''topicID'', JInt 5)] ''difficulty'')"
    "dict_get_default [(lit ''topicID'', JInt 5)] ''topicID'' (JInt (sk_topic_id skill1)) = JInt 5"
    by (simp_all add: payload_simps)
  have lookup: "topic_get strict small_store (JInt 5) = Inr None"
    "sk_topic_id skill1 \<in> t_id ` set (topics small_store)"
    by (simp_all add: store_simps example_simps)
  show ?thesis
    using update_skill_topic_checked [OF row none(1,2,3), of strict]
      update_skill_topic_checked [OF row five(1,2,3), of strict] none(4) five(4) lookup
    by simp
qed

text \<open>
  C1 as stated fails where \<open>topicID\<close> is supplied as null: skill 1 has the stored
  \<open>topic_id\<close> 1 and topic 1 exists, so a fallback to the prior value would pass the
  validation; the answer is 422 "topicID not found".
\<close>

theorem update_skill_null_topic_counterexample:
  "skill_by_id small_store 1 = Some skill1 \<and>
   topic_by_id small_store (sk_topic_id skill1) = Some topic1 \<and>
   update_skill strict 1 (Json (JObj [(lit ''topicID'', JNull)])) small_store =
     (Response (Error ''topicID not found'') 422, small_store)"
  by (simp add: update_skill_def payload_simps store_simps example_simps)

section \<open>Creating a skill\<close>

text \<open>
  C3, as the code has it. For every \<open>POST /skills\<close> that answers 201, the row of the
  answer is the row appended to the skills, and its difficulty is the string "unknown"
  when the member \<open>difficulty\<close> is absent, null or empty (any value that Python takes
  as false), and the trimmed string when \<open>difficulty\<close> is a non-empty string.
\<close>

theorem create_skill_difficulty:
  assumes "payload_of b = JObj kvs" and "create_skill c b s = (Response res 201, s')"
  shows "\<exists>x. res = SkillOut x \<and> skills s' = skills s @ [x] \<and>
           (\<not> truthy (dict_get kvs ''difficulty'') \<longrightarrow> sk_difficulty x = lit ''unknown'') \<and>
           (\<forall>d. dict_get kvs ''difficulty'' = JStr d \<and> d \<noteq> [] \<longrightarrow> sk_difficulty x = strip d)"
proof -
  from assms(2,1) obtain name difficulty x where
    d: "strip_of (py_or (dict_get kvs ''difficulty'') (JStr (lit ''unknown''))) = Inr difficulty"
    and w: "add_skill c name (dict_get kvs ''topicID'') difficulty s = Inr (x, s')"
    and c: "res = SkillOut x"
    by (rule create_skill_ok_cases)
  have u: "strip (lit ''unknown'') = lit ''unknown''"
    by (simp add: lit_def strip_def lstrip_def rstrip_def isspace_def)
  have "\<not> truthy (dict_get kvs ''difficulty'') \<Longrightarrow> difficulty = lit ''unknown''"
    using d u by (simp add: py_or_def strip_of_def)
  moreover have "dict_get kvs ''difficulty'' = JStr v \<Longrightarrow> v \<noteq> [] \<Longrightarrow> difficulty = strip v"
    for v
    using d by (simp add: py_or_def strip_of_def)
  ultimately show ?thesis
    using c add_skill_fields [OF w] by auto
qed

text \<open>A skill of topic 1 created without \<open>difficulty\<close>, and one with " x ".\<close>

theorem create_skill_difficulty_witness:
  "create_skill strict (Json (JObj [(lit ''name'', JStr [83]), (lit ''topicID'', JInt 1)]))
      small_store =
     (Response (SkillOut \<lparr>sk_id = 2, sk_name = [83], sk_topic_id = 1,
        sk_difficulty = lit ''unknown''\<rparr>) 201,
      small_store\<lparr>skills := [skill1, \<lparr>sk_id = 2, sk_name = [83], sk_topic_id = 1,
        sk_difficulty = lit ''unknown''\<rparr>], skill_seq := 3\<rparr>) \<and>
   create_skill strict (Json (JObj [(lit ''name'', JStr [83]), (lit ''topicID'', JInt 1),
        (lit ''difficulty'', JStr [32, 120, 32])])) small_store =
     (Response (SkillOut \<lparr>sk_id = 2, sk_name = [83], sk_topic_id = 1,
        sk_difficulty = [120]\<rparr>) 201,
      small_store\<lparr>skills := [skill1, \<lparr>sk_id = 2, sk_name = [83], sk_topic_id = 1,
        sk_difficulty = [120]\<rparr>], skill_seq := 3\<rparr>) \<and>
   (\<exists>x. skills (small_store\<lparr>skills := [skill1, \<lparr>sk_id = 2, sk_name = [83], sk_topic_id = 1,
            sk_difficulty = lit ''unknown''\<rparr>], skill_seq := 3\<rparr>) = skills small_store @ [x] \<and>
        sk_difficulty x = lit ''unknown'') \<and>
   (\<exists>x. skills (small_store\<lparr>skills := [skill1, \<lparr>sk_id = 2, sk_name = [83], sk_topic_id = 1,
            sk_difficulty = [120]\<rparr>], skill_seq := 3\<rparr>) = skills small_store @ [x] \<and>
        sk_difficulty x = strip [32, 120, 32])"
proof -
  have a: "create_skill strict (Json (JObj [(lit ''name'', JStr [83]), (lit ''topicID'', JInt 1)]))
      small_store =
     (Response (SkillOut \<lparr>sk_id = 2, sk_name = [83], sk_topic_id = 1,
        sk_difficulty = lit ''unknown''\<rparr>) 201,
      small_store\<lparr>skills := [skill1, \<lparr>sk_id = 2, sk_name = [83], sk_topic_id = 1,
        sk_difficulty = lit ''unknown''\<rparr>], skill_seq := 3\<rparr>)"
    by (simp add: create_skill_def payload_simps store_simps example_simps)
  have b: "create_skill strict (Json (JObj [(lit ''name'', JStr [83]), (lit ''topicID'', JInt 1),
        (lit ''difficulty'', JStr [32, 120, 32])])) small_store =
     (Response (SkillOut \<lparr>sk_id = 2, sk_name = [83], sk_topic_id = 1,
        sk_difficulty = [120]\<rparr>) 201,
      small_store\<lparr>skills := [skill1, \<lparr>sk_id = 2, sk_name = [83], sk_topic_id = 1,
        sk_difficulty = [120]\<rparr>], skill_seq := 3\<rparr>)"
    by (simp add: create_skill_def payload_simps store_simps example_simps)
  from create_skill_difficulty [OF _ a, of "[(lit ''name'', JStr [83]), (lit ''topicID'', JInt 1)]"]
    create_skill_difficulty [OF _ b, of "[(lit ''name'', JStr [83]), (lit ''topicID'', JInt 1),
        (lit ''difficulty'', JStr [32, 120, 32])]"]
  have "(\<exists>x. skills (small_store\<lparr>skills := [skill1, \<lparr>sk_id = 2, sk_name = [83], sk_topic_id = 1,
            sk_difficulty = lit ''unknown''\<rparr>], skill_seq := 3\<rparr>) = skills small_store @ [x] \<and>
        sk_difficulty x = lit ''unknown'') \<and>
   (\<exists>x. skills (small_store\<lparr>skills := [skill1, \<lparr>sk_id = 2, sk_name = [83], sk_topic_id = 1,
            sk_difficulty = [120]\<rparr>], skill_seq := 3\<rparr>) = skills small_store @ [x] \<and>
        sk_difficulty x = strip [32, 120, 32])"
    by (simp add: payload_of_def get_json_def py_or_def dict_get_def dict_get_default_def
        dict_member_def lit_def)
  with a b show ?thesis
    by simp
qed

text \<open>
  C3 as stated fails where \<open>difficulty\<close> is white space only: the string of two spaces
  is true for \<open>or\<close>, so the default is not taken, and its trimmed value, the empty
  string, is stored.
\<close>

theorem create_skill_blank_difficulty_counterexample:
  "create_skill strict (Json (JObj [(lit ''name'', JStr [83]), (lit ''topicID'', JInt 1),
       (lit ''difficulty'', JStr [32, 32])])) small_store =
     (Response (SkillOut \<lparr>sk_id = 2, sk_name = [83], sk_topic_id = 1, sk_difficulty = []\<rparr>) 201,
      small_store\<lparr>skills := [skill1, \<lparr>sk_id = 2, sk_name = [83], sk_topic_id = 1,
        sk_difficulty = []\<rparr>], skill_seq := 3\<rparr>) \<and>
   isspace 32 \<and> [] \<noteq> lit ''unknown''"
  by (simp add: create_skill_def payload_simps store_simps example_simps)

end
